theory Spec2Isabelle
  imports Complex_Main
begin

section \<open>Values, time and results\<close>

text \<open>
  The backend is JavaScript on Express and Mongoose. In the handlers a JavaScript Number is
  read as a real number, with exact arithmetic; the accrual is also given as the code computes
  it, with every operation rounded to the nearest IEEE double (\<open>calculateRewards_double\<close>).
  A Date and the result of \<^verbatim>\<open>Date.now()\<close> are an integer count of milliseconds.
  A handler runs its synchronous part at one instant \<open>now\<close>: every \<^verbatim>\<open>Date.now()\<close> and
  \<^verbatim>\<open>new Date()\<close> of one run of a handler reads that instant.
  A field of a request body is \<open>None\<close> when the body does not have it; wallet addresses are
  strings and amounts are numbers when they are present. A character of a string is a code
  unit up to U+00FF. The handlers are modelled on strings without surrounding white space
  (\<open>trim s = s\<close>), on which the \<^verbatim>\<open>trim\<close> of the schemas is the identity and \<^verbatim>\<open>required\<close>
  asks for a string that is not empty.
\<close>

text \<open>
  Every failing answer of the two routers, by its HTTP status and message:
  \<^item> \<open>StakeArgumentsInvalid\<close>: 400, 'Wallet address and staking amount are required and must be positive.'
  \<^item> \<open>WalletAddressRequired\<close>: 400, 'Wallet address is required.'
  \<^item> \<open>StakingUserNotFound\<close>: 404, 'Staking user not found.'
  \<^item> \<open>NoRewardsToClaim\<close>: 400, 'No rewards to claim.'
  \<^item> \<open>NoAfoxStaked\<close>: 400, 'You have no AFOX staked.'
  \<^item> \<open>ProposalFieldsMissing\<close>: 400, 'Request missing required fields: title, description, and creator wallet address.'
  \<^item> \<open>CreatorWalletInvalid\<close>: 400, 'The provided creator wallet address is not a valid Solana public key format.'
  \<^item> \<open>ProposalValidationFailed\<close>: 400, 'Validation failed for proposal data.'
  \<^item> \<open>VoteFieldsMissing\<close>: 400, 'Request missing required fields: proposal ID, vote type, and voter wallet address.'
  \<^item> \<open>ProposalIdInvalid\<close>: 400, 'Invalid Proposal ID format provided.'
  \<^item> \<open>VoterWalletInvalid\<close>: 400, 'The provided voter wallet address is not a valid Solana public key format.'
  \<^item> \<open>VoteTypeInvalid\<close>: 400, 'Invalid vote type. Please use for or against.'
  \<^item> \<open>ProposalNotFound\<close>: 404, 'DAO Proposal not found with the provided ID.'
  \<^item> \<open>VotingEnded\<close>: 400, 'Voting for this proposal has already ended.'
  \<^item> \<open>AlreadyVoted\<close>: 409, 'You have already cast a vote on this proposal. Each wallet can vote only once.'
  \<^item> \<open>ServerError\<close>: 500, the answer of every \<^verbatim>\<open>catch\<close> block (but the validation
    answer of proposal creation).
\<close>

datatype failure =
    StakeArgumentsInvalid
  | WalletAddressRequired
  | StakingUserNotFound
  | NoRewardsToClaim
  | NoAfoxStaked
  | ProposalFieldsMissing
  | CreatorWalletInvalid
  | ProposalValidationFailed
  | VoteFieldsMissing
  | ProposalIdInvalid
  | VoterWalletInvalid
  | VoteTypeInvalid
  | ProposalNotFound
  | VotingEnded
  | AlreadyVoted
  | ServerError

fun http_status :: "failure \<Rightarrow> nat" where
  "http_status StakingUserNotFound = 404"
| "http_status ProposalNotFound = 404"
| "http_status AlreadyVoted = 409"
| "http_status ServerError = 500"
| "http_status _ = 400"

text \<open>\<^verbatim>\<open>!v\<close> on a body field: true when the field is absent, the empty string, or the number 0.\<close>

definition falsy_string :: "string option \<Rightarrow> bool" where
  "falsy_string v = (case v of None \<Rightarrow> True | Some s \<Rightarrow> s = [])"

definition falsy_number :: "real option \<Rightarrow> bool" where
  "falsy_number v = (case v of None \<Rightarrow> True | Some x \<Rightarrow> x = 0)"

text \<open>
  \<^verbatim>\<open>x.toFixed(2)\<close>, as the number of hundredths it prints: the integer \<open>n\<close> with \<open>n / 100\<close>
  nearest to \<open>x\<close>, the larger one on a tie, the sign of a negative \<open>x\<close> put back in front
  (the decimal form that \<^verbatim>\<open>toFixed\<close> prints for magnitudes below \<open>10^21\<close>).
\<close>

definition toFixed2 :: "real \<Rightarrow> int" where
  "toFixed2 x = (if x < 0 then - \<lfloor>(- x) * 100 + 1 / 2\<rfloor> else \<lfloor>x * 100 + 1 / 2\<rfloor>)"

text \<open>
  \<^verbatim>\<open>String.prototype.trim\<close>, which the schemas apply to the strings they store: the white
  space and line terminators of JavaScript up to U+00FF are taken off both ends.
\<close>

definition is_white_space :: "char \<Rightarrow> bool" where
  "is_white_space c =
     (c \<in> set [CHR 0x09, CHR 0x0A, CHR 0x0B, CHR 0x0C, CHR 0x0D, CHR 0x20, CHR 0xA0])"

definition trim :: "string \<Rightarrow> string" where
  "trim s = rev (dropWhile is_white_space (rev (dropWhile is_white_space s)))"

section \<open>The staking model and router\<close>

text \<open>
  \<^verbatim>\<open>models/StakingUser.js\<close>. The collection has a unique index on \<^verbatim>\<open>walletAddress\<close>; it is
  a map from the wallet address to the other fields of the document.
\<close>

record StakingUser =
  stakedAmount :: real
  rewards :: real
  lastClaimed :: int
  lastStakedOrUnstaked :: int

type_synonym staking_collection = "string \<rightharpoonup> StakingUser"

text \<open>
  The validators of the schema, which \<^verbatim>\<open>save()\<close> runs on the document: \<^verbatim>\<open>min: 0\<close> on both
  amounts. The wallet address that the schema requires is the key of the map, and the
  handlers that save have refused an empty one before.
\<close>

definition validate_StakingUser :: "StakingUser \<Rightarrow> bool" where
  "validate_StakingUser user = (0 \<le> stakedAmount user \<and> 0 \<le> rewards user)"

text \<open>
  \<^verbatim>\<open>user.save()\<close>: \<open>None\<close> when it throws (a validator refuses the document, or the document
  is a new one and the unique index already holds its wallet address), else the collection
  with the document written.
\<close>

definition save_StakingUser ::
  "bool \<Rightarrow> string \<Rightarrow> StakingUser \<Rightarrow> staking_collection \<Rightarrow> staking_collection option" where
  "save_StakingUser isNew walletAddress user db =
     (if \<not> validate_StakingUser user then None
      else if isNew \<and> db walletAddress \<noteq> None then None
      else Some (db(walletAddress \<mapsto> user)))"

definition STAKING_APR :: real where
  "STAKING_APR = 0.10"

definition calculateRewards :: "int \<Rightarrow> real \<Rightarrow> int \<Rightarrow> real" where
  "calculateRewards now stakedAmount' lastStakedOrUnstakedDate =
     (let lastDate = lastStakedOrUnstakedDate;
          timeDiffHours = real_of_int (now - lastDate) / (1000 * 60 * 60);
          dailyRate = STAKING_APR / 365;
          accruedRewards = stakedAmount' * dailyRate * (timeDiffHours / 24)
      in accruedRewards)"

text \<open>
  The reference formula of the specification, in its words: the annual rate as a daily
  rate, the elapsed time as fractional days, multiplied with the principal.
\<close>

definition accrue_reference :: "real \<Rightarrow> real \<Rightarrow> real \<Rightarrow> real" where
  "accrue_reference stakedAmount' elapsedTimeMs annualRate =
     stakedAmount' * (annualRate / 365) * (elapsedTimeMs / 86400000)"

subsection \<open>The accrual in doubles\<close>

text \<open>
  The code computes in IEEE doubles: the result of every operation is the double nearest to
  the exact result, the one with the even significand on a tie. \<open>to_double\<close> is that rounding
  on the real numbers: a significand of 53 bits in the binade of the number, and the spacing
  of the subnormal numbers below \<open>2 ^ - 1022\<close>. Numbers beyond the largest double, which
  JavaScript rounds to \<^verbatim>\<open>Infinity\<close>, are outside this model.
\<close>

function binade_up :: "real \<Rightarrow> int" where
  "binade_up x = (if 2 \<le> x then binade_up (x / 2) + 1 else 0)"
  by pat_completeness auto
termination
  by (relation "measure (\<lambda>x. nat \<lceil>x\<rceil>)") (auto, linarith)

function binade_down :: "real \<Rightarrow> int" where
  "binade_down x = (if 0 < x \<and> x < 1 then binade_down (x * 2) - 1 else 0)"
  by pat_completeness auto
termination
proof (relation "measure (\<lambda>x. nat \<lceil>1 / x\<rceil>)")
  show "wf (measure (\<lambda>x. nat \<lceil>1 / x\<rceil>))" by simp
next
  fix x :: real assume h: "0 < x \<and> x < 1"
  have half: "\<lceil>y / 2\<rceil> < \<lceil>y\<rceil>" if "1 < y" for y :: real
  proof -
    have up: "y \<le> real_of_int \<lceil>y\<rceil>" by (rule le_of_int_ceiling)
    then have "1 < real_of_int \<lceil>y\<rceil>" using that by linarith
    then have "2 \<le> \<lceil>y\<rceil>" by linarith
    then have "2 \<le> real_of_int \<lceil>y\<rceil>" by linarith
    then have "y / 2 \<le> real_of_int \<lceil>y\<rceil> - 1" using up by linarith
    then show ?thesis by (rule ceiling_less_iff [THEN iffD2])
  qed
  from h have big: "1 < 1 / x" by simp
  have "1 / (x * 2) = 1 / x / 2" by simp
  then have less: "\<lceil>1 / (x * 2)\<rceil> < \<lceil>1 / x\<rceil>" using half [OF big] by (simp only:)
  have pos: "0 < \<lceil>1 / x\<rceil>" using big by linarith
  show "(x * 2, x) \<in> measure (\<lambda>x. nat \<lceil>1 / x\<rceil>)"
    using less pos by (simp only: in_measure zless_nat_conj simp_thms)
qed

declare binade_up.simps [simp del] binade_down.simps [simp del]

text \<open>The binade of a positive number: the \<open>e\<close> with \<open>2 ^ e \<le> x < 2 ^ (e + 1)\<close>.\<close>

definition binade :: "real \<Rightarrow> int" where
  "binade x = (if 1 \<le> x then binade_up x else binade_down x)"

definition pow2 :: "int \<Rightarrow> real" where
  "pow2 k = (if 0 \<le> k then 2 ^ nat k else 1 / 2 ^ nat (- k))"

definition round_half_even :: "real \<Rightarrow> int" where
  "round_half_even y =
     (let f = \<lfloor>y\<rfloor>; r = y - real_of_int f
      in if r < 1 / 2 then f else if 1 / 2 < r then f + 1 else if even f then f else f + 1)"

definition nearest_double :: "real \<Rightarrow> real" where
  "nearest_double x =
     (let e = max (binade x) (- 1022);
          ulp = pow2 (e - 52)
      in real_of_int (round_half_even (x / ulp)) * ulp)"

definition to_double :: "real \<Rightarrow> real" where
  "to_double x = (if x = 0 then 0 else if x < 0 then - nearest_double (- x) else nearest_double x)"

text \<open>\<^verbatim>\<open>calculateRewards\<close> again, line by line, with every literal and operation rounded.\<close>

definition calculateRewards_double :: "int \<Rightarrow> real \<Rightarrow> int \<Rightarrow> real" where
  "calculateRewards_double now stakedAmount' lastStakedOrUnstakedDate =
     (let lastDate = lastStakedOrUnstakedDate;
          timeDiffHours =
            to_double (to_double (real_of_int (now - lastDate)) / (1000 * 60 * 60));
          dailyRate = to_double (to_double STAKING_APR / 365);
          accruedRewards =
            to_double (to_double (to_double stakedAmount' * dailyRate)
                         * to_double (timeDiffHours / 24))
      in accruedRewards)"

text \<open>The reference formula of the specification, computed in doubles in the order it is written.\<close>

definition accrue_reference_double :: "real \<Rightarrow> real \<Rightarrow> real \<Rightarrow> real" where
  "accrue_reference_double stakedAmount' elapsedTimeMs annualRate =
     to_double (to_double (to_double stakedAmount' * to_double (to_double annualRate / 365))
                  * to_double (to_double elapsedTimeMs / 86400000))"

subsection \<open>GET /:walletAddress\<close>

record staking_view =
  view_stakedAmount :: real
  view_rewards :: real
  view_lastClaimed :: "int option"
  view_lastStakedOrUnstaked :: "int option"

definition get_staking ::
  "int \<Rightarrow> string \<Rightarrow> staking_collection \<Rightarrow> staking_view \<times> staking_collection" where
  "get_staking now walletAddress db =
     (case db walletAddress of
        Some user \<Rightarrow>
          (let currentRewards =
                 rewards user + calculateRewards now (stakedAmount user) (lastStakedOrUnstaked user)
           in (\<lparr>view_stakedAmount = stakedAmount user,
                 view_rewards = currentRewards,
                 view_lastClaimed = Some (lastClaimed user),
                 view_lastStakedOrUnstaked = Some (lastStakedOrUnstaked user)\<rparr>, db))
      | None \<Rightarrow>
          (\<lparr>view_stakedAmount = 0, view_rewards = 0,
            view_lastClaimed = None, view_lastStakedOrUnstaked = None\<rparr>, db))"

subsection \<open>POST /stake\<close>

text \<open>
  The handler waits twice: for \<^verbatim>\<open>findOne\<close> and for \<^verbatim>\<open>save\<close>. \<open>stake_find\<close> is the part up
  to the answer of \<^verbatim>\<open>findOne\<close> (the check of the body and the read), \<open>stake_save\<close> the part
  from there on (the fold of the accrued rewards, the new principal, the write).
\<close>

definition stake_find ::
  "string option \<Rightarrow> real option \<Rightarrow> staking_collection \<Rightarrow>
     failure + (string \<times> real \<times> StakingUser option)" where
  "stake_find walletAddress amount db =
     (case (walletAddress, amount) of
        (Some w, Some a) \<Rightarrow>
          if falsy_string walletAddress \<or> falsy_number amount \<or> a \<le> 0
          then Inl StakeArgumentsInvalid
          else Inr (w, a, db w)
      | _ \<Rightarrow> Inl StakeArgumentsInvalid)"

definition stake_save ::
  "int \<Rightarrow> string \<Rightarrow> real \<Rightarrow> StakingUser option \<Rightarrow> staking_collection \<Rightarrow>
     (failure + StakingUser) \<times> staking_collection" where
  "stake_save now w a found db =
     (let user = (case found of
                    None \<Rightarrow> \<lparr>stakedAmount = 0, rewards = 0,
                              lastClaimed = now, lastStakedOrUnstaked = now\<rparr>
                  | Some user \<Rightarrow>
                      user\<lparr>rewards := rewards user
                         + calculateRewards now (stakedAmount user) (lastStakedOrUnstaked user)\<rparr>);
          user = user\<lparr>stakedAmount := stakedAmount user + a\<rparr>;
          user = user\<lparr>lastStakedOrUnstaked := now\<rparr>
      in (case save_StakingUser (found = None) w user db of
            None \<Rightarrow> (Inl ServerError, db)
          | Some db' \<Rightarrow> (Inr user, db')))"

definition stake ::
  "int \<Rightarrow> string option \<Rightarrow> real option \<Rightarrow> staking_collection \<Rightarrow>
     (failure + StakingUser) \<times> staking_collection" where
  "stake now walletAddress amount db =
     (case stake_find walletAddress amount db of
        Inl e \<Rightarrow> (Inl e, db)
      | Inr (w, a, found) \<Rightarrow> stake_save now w a found db)"

subsection \<open>POST /claim-rewards\<close>

text \<open>
  The answer of a claim and of an unstake is the updated document and a message that
  prints the amount with \<^verbatim>\<open>toFixed(2)\<close>: the pair of the printed hundredths and the document.
\<close>

definition claim_rewards ::
  "int \<Rightarrow> string option \<Rightarrow> staking_collection \<Rightarrow>
     (failure + (int \<times> StakingUser)) \<times> staking_collection" where
  "claim_rewards now walletAddress db =
     (case walletAddress of
        None \<Rightarrow> (Inl WalletAddressRequired, db)
      | Some w \<Rightarrow>
          if falsy_string walletAddress then (Inl WalletAddressRequired, db)
          else
            (case db w of
               None \<Rightarrow> (Inl StakingUserNotFound, db)
             | Some user \<Rightarrow>
                 (let currentRewards =
                        rewards user
                          + calculateRewards now (stakedAmount user) (lastStakedOrUnstaked user)
                  in if currentRewards \<le> 0 then (Inl NoRewardsToClaim, db)
                     else
                       (let user = user\<lparr>rewards := 0\<rparr>;
                            user = user\<lparr>lastClaimed := now\<rparr>;
                            user = user\<lparr>lastStakedOrUnstaked := now\<rparr>
                        in (case save_StakingUser False w user db of
                              None \<Rightarrow> (Inl ServerError, db)
                            | Some db' \<Rightarrow> (Inr (toFixed2 currentRewards, user), db'))))))"

subsection \<open>POST /unstake\<close>

definition unstake ::
  "int \<Rightarrow> string option \<Rightarrow> staking_collection \<Rightarrow>
     (failure + (int \<times> StakingUser)) \<times> staking_collection" where
  "unstake now walletAddress db =
     (case walletAddress of
        None \<Rightarrow> (Inl WalletAddressRequired, db)
      | Some w \<Rightarrow>
          if falsy_string walletAddress then (Inl WalletAddressRequired, db)
          else
            (case db w of
               None \<Rightarrow> (Inl StakingUserNotFound, db)
             | Some user \<Rightarrow>
                 if stakedAmount user \<le> 0 then (Inl NoAfoxStaked, db)
                 else
                   (let user = user\<lparr>rewards := rewards user
                            + calculateRewards now (stakedAmount user) (lastStakedOrUnstaked user)\<rparr>;
                        totalUnstakedAmount = stakedAmount user + rewards user;
                        user = user\<lparr>stakedAmount := 0\<rparr>;
                        user = user\<lparr>rewards := 0\<rparr>;
                        user = user\<lparr>lastStakedOrUnstaked := now\<rparr>;
                        user = user\<lparr>lastClaimed := now\<rparr>
                    in (case save_StakingUser False w user db of
                          None \<Rightarrow> (Inl ServerError, db)
                        | Some db' \<Rightarrow> (Inr (toFixed2 totalUnstakedAmount, user), db')))))"

subsection \<open>Stake handlers in flight\<close>

text \<open>
  Node runs one handler until it waits; while one handler waits for the database, another
  one runs. A stake request in flight is \<open>Requested\<close> before its \<^verbatim>\<open>findOne\<close> is answered,
  \<open>Found\<close> between that answer and its \<^verbatim>\<open>save\<close>, and \<open>Responded\<close> after it. A schedule
  names, step by step, the handler that goes on and the instant at which it does.
\<close>

datatype stake_task =
    Requested "string option" "real option"
  | Found string real "StakingUser option"
  | Responded "failure + StakingUser"

definition stake_task_step ::
  "int \<Rightarrow> stake_task \<Rightarrow> staking_collection \<Rightarrow> stake_task \<times> staking_collection" where
  "stake_task_step now task db =
     (case task of
        Requested walletAddress amount \<Rightarrow>
          (case stake_find walletAddress amount db of
             Inl e \<Rightarrow> (Responded (Inl e), db)
           | Inr (w, a, found) \<Rightarrow> (Found w a found, db))
      | Found w a found \<Rightarrow>
          (case stake_save now w a found db of (r, db') \<Rightarrow> (Responded r, db'))
      | Responded r \<Rightarrow> (Responded r, db))"

fun run_schedule ::
  "(nat \<times> int) list \<Rightarrow> stake_task list \<Rightarrow> staking_collection \<Rightarrow>
     stake_task list \<times> staking_collection" where
  "run_schedule [] tasks db = (tasks, db)"
| "run_schedule ((i, now) # schedule) tasks db =
     (if i < length tasks
      then (case stake_task_step now (tasks ! i) db of
              (task', db') \<Rightarrow> run_schedule schedule (tasks[i := task']) db')
      else run_schedule schedule tasks db)"

text \<open>Stake requests of one wallet served one after the other, at the instants of the list.\<close>

fun stake_sequence ::
  "string \<Rightarrow> real \<Rightarrow> int list \<Rightarrow> staking_collection \<Rightarrow> staking_collection" where
  "stake_sequence w a [] db = db"
| "stake_sequence w a (now # nows) db =
     stake_sequence w a nows (snd (stake now (Some w) (Some a) db))"

section \<open>The DAO proposal model and router\<close>

datatype proposal_status = active | completed

record DaoProposal =
  title :: string
  description :: string
  creatorWallet :: string
  votesFor :: int
  votesAgainst :: int
  voters :: "string list"
  expiresAt :: int
  status :: proposal_status

text \<open>The collection, by the \<^verbatim>\<open>_id\<close> of the documents.\<close>

type_synonym dao_collection = "string \<rightharpoonup> DaoProposal"

text \<open>The regular expression of the schema: 32 to 44 characters of the base58 alphabet.\<close>

definition base58_alphabet :: string where
  "base58_alphabet = ''123456789ABCDEFGHJKLMNPQRSTUVWXYZabcdefghijkmnopqrstuvwxyz''"

definition solana_address_format :: "string \<Rightarrow> bool" where
  "solana_address_format v =
     (32 \<le> length v \<and> length v \<le> 44 \<and> list_all (\<lambda>c. c \<in> set base58_alphabet) v)"

text \<open>
  The validators of \<^verbatim>\<open>models/DaoProposal.js\<close>, which \<^verbatim>\<open>save()\<close> runs on the document at the
  instant \<open>now\<close>: Mongoose validates before every save, and every path of the document,
  those it loaded unchanged as well. The \<^verbatim>\<open>enum\<close> of \<^verbatim>\<open>status\<close> holds by its type.
\<close>

definition validate_DaoProposal :: "int \<Rightarrow> DaoProposal \<Rightarrow> bool" where
  "validate_DaoProposal now proposal =
     (title proposal \<noteq> [] \<and> 5 \<le> length (title proposal) \<and> length (title proposal) \<le> 200
      \<and> description proposal \<noteq> [] \<and> 20 \<le> length (description proposal)
      \<and> length (description proposal) \<le> 5000
      \<and> creatorWallet proposal \<noteq> [] \<and> solana_address_format (creatorWallet proposal)
      \<and> 0 \<le> votesFor proposal
      \<and> 0 \<le> votesAgainst proposal
      \<and> (voters proposal = [] \<or> list_all solana_address_format (voters proposal))
      \<and> expiresAt proposal > now)"

definition save_DaoProposal ::
  "int \<Rightarrow> string \<Rightarrow> DaoProposal \<Rightarrow> dao_collection \<Rightarrow> dao_collection option" where
  "save_DaoProposal now proposalId proposal db =
     (if validate_DaoProposal now proposal then Some (db(proposalId \<mapsto> proposal)) else None)"

subsection \<open>POST /proposals\<close>

text \<open>
  \<open>PublicKey_accepts\<close> stands for the constructor \<^verbatim>\<open>PublicKey\<close> of the Solana library: true
  when it does not throw. \<open>newId\<close> is the \<^verbatim>\<open>_id\<close> that Mongoose gives the new document.
\<close>

definition create_proposal ::
  "(string \<Rightarrow> bool) \<Rightarrow> string \<Rightarrow> int \<Rightarrow> string option \<Rightarrow> string option \<Rightarrow> string option \<Rightarrow>
     dao_collection \<Rightarrow> (failure + DaoProposal) \<times> dao_collection" where
  "create_proposal PublicKey_accepts newId now title' description' creatorWallet' db =
     (case (title', description', creatorWallet') of
        (Some t, Some d, Some c) \<Rightarrow>
          if falsy_string title' \<or> falsy_string description' \<or> falsy_string creatorWallet'
          then (Inl ProposalFieldsMissing, db)
          else if \<not> PublicKey_accepts c then (Inl CreatorWalletInvalid, db)
          else
            (let expiresAt' = now + 7 * 24 * 60 * 60 * 1000;
                 newProposal = \<lparr>title = t, description = d, creatorWallet = c,
                                votesFor = 0, votesAgainst = 0, voters = [],
                                expiresAt = expiresAt', status = active\<rparr>
             in if \<not> validate_DaoProposal now newProposal
                then (Inl ProposalValidationFailed, db)
                else if db newId \<noteq> None then (Inl ServerError, db)
                else (Inr newProposal, db(newId \<mapsto> newProposal)))
      | _ \<Rightarrow> (Inl ProposalFieldsMissing, db))"

subsection \<open>POST /vote\<close>

text \<open>\<open>ObjectId_isValid\<close> stands for \<^verbatim>\<open>mongoose.Types.ObjectId.isValid\<close>.\<close>

definition vote ::
  "(string \<Rightarrow> bool) \<Rightarrow> (string \<Rightarrow> bool) \<Rightarrow> int \<Rightarrow> string option \<Rightarrow> string option \<Rightarrow>
     string option \<Rightarrow> dao_collection \<Rightarrow> (failure + DaoProposal) \<times> dao_collection" where
  "vote ObjectId_isValid PublicKey_accepts now proposalId voteType voterWallet db =
     (case (proposalId, voteType, voterWallet) of
        (Some pid, Some vt, Some vw) \<Rightarrow>
          if falsy_string proposalId \<or> falsy_string voteType \<or> falsy_string voterWallet
          then (Inl VoteFieldsMissing, db)
          else if \<not> ObjectId_isValid pid then (Inl ProposalIdInvalid, db)
          else if \<not> PublicKey_accepts vw then (Inl VoterWalletInvalid, db)
          else if vt \<notin> set [''for'', ''against''] then (Inl VoteTypeInvalid, db)
          else
            (case db pid of
               None \<Rightarrow> (Inl ProposalNotFound, db)
             | Some proposal \<Rightarrow>
                 if now \<ge> expiresAt proposal
                 then (if status proposal = active
                       then (case save_DaoProposal now pid (proposal\<lparr>status := completed\<rparr>) db of
                               None \<Rightarrow> (Inl ServerError, db)
                             | Some db' \<Rightarrow> (Inl VotingEnded, db'))
                       else (Inl VotingEnded, db))
                 else if vw \<in> set (voters proposal) then (Inl AlreadyVoted, db)
                 else
                   (let proposal = (if vt = ''for''
                                    then proposal\<lparr>votesFor := votesFor proposal + 1\<rparr>
                                    else proposal\<lparr>votesAgainst := votesAgainst proposal + 1\<rparr>);
                        proposal = proposal\<lparr>voters := voters proposal @ [vw]\<rparr>
                    in (case save_DaoProposal now pid proposal db of
                          None \<Rightarrow> (Inl ServerError, db)
                        | Some db' \<Rightarrow> (Inr proposal, db'))))
      | _ \<Rightarrow> (Inl VoteFieldsMissing, db))"

text \<open>
  The handler waits twice, for \<^verbatim>\<open>findById\<close> and for \<^verbatim>\<open>save\<close>, and nothing keeps another
  handler from running in between. \<open>vote_find\<close> is the part up to the answer of \<^verbatim>\<open>findById\<close>
  and \<open>vote_save\<close> the part from there on, on the collection as it is by then. The \<^verbatim>\<open>save\<close>
  of a loaded document validates the document of the handler and writes what the handler
  changed, with the \<^verbatim>\<open>_id\<close> as its only condition: it sets the counter or the status to the
  value of the handler, and it pushes the wallet onto the stored array of voters.
\<close>

definition vote_find ::
  "(string \<Rightarrow> bool) \<Rightarrow> (string \<Rightarrow> bool) \<Rightarrow> string option \<Rightarrow> string option \<Rightarrow>
     string option \<Rightarrow> dao_collection \<Rightarrow>
     failure + (string \<times> string \<times> string \<times> DaoProposal option)" where
  "vote_find ObjectId_isValid PublicKey_accepts proposalId voteType voterWallet db =
     (case (proposalId, voteType, voterWallet) of
        (Some pid, Some vt, Some vw) \<Rightarrow>
          if falsy_string proposalId \<or> falsy_string voteType \<or> falsy_string voterWallet
          then Inl VoteFieldsMissing
          else if \<not> ObjectId_isValid pid then Inl ProposalIdInvalid
          else if \<not> PublicKey_accepts vw then Inl VoterWalletInvalid
          else if vt \<notin> set [''for'', ''against''] then Inl VoteTypeInvalid
          else Inr (pid, vt, vw, db pid)
      | _ \<Rightarrow> Inl VoteFieldsMissing)"

definition vote_save ::
  "int \<Rightarrow> string \<Rightarrow> string \<Rightarrow> string \<Rightarrow> DaoProposal option \<Rightarrow> dao_collection \<Rightarrow>
     (failure + DaoProposal) \<times> dao_collection" where
  "vote_save now pid vt vw found db =
     (case found of
        None \<Rightarrow> (Inl ProposalNotFound, db)
      | Some proposal \<Rightarrow>
          if now \<ge> expiresAt proposal
          then (if status proposal = active
                then (let proposal = proposal\<lparr>status := completed\<rparr>
                      in if \<not> validate_DaoProposal now proposal then (Inl ServerError, db)
                         else (case db pid of
                                 None \<Rightarrow> (Inl ServerError, db)
                               | Some stored \<Rightarrow>
                                   (Inl VotingEnded, db(pid \<mapsto> stored\<lparr>status := completed\<rparr>))))
                else (Inl VotingEnded, db))
          else if vw \<in> set (voters proposal) then (Inl AlreadyVoted, db)
          else
            (let proposal = (if vt = ''for''
                             then proposal\<lparr>votesFor := votesFor proposal + 1\<rparr>
                             else proposal\<lparr>votesAgainst := votesAgainst proposal + 1\<rparr>);
                 proposal = proposal\<lparr>voters := voters proposal @ [vw]\<rparr>
             in if \<not> validate_DaoProposal now proposal then (Inl ServerError, db)
                else (case db pid of
                        None \<Rightarrow> (Inl ServerError, db)
                      | Some stored \<Rightarrow>
                          (Inr proposal,
                           db(pid \<mapsto>
                                (if vt = ''for''
                                 then stored\<lparr>votesFor := votesFor proposal\<rparr>
                                 else stored\<lparr>votesAgainst := votesAgainst proposal\<rparr>)
                                \<lparr>voters := voters stored @ [vw]\<rparr>)))))"

text \<open>The requests of the DAO router that write, and a run of them in their order.\<close>

datatype dao_request =
    CreateProposal string int "string option" "string option" "string option"
  | Vote int "string option" "string option" "string option"

definition dao_step ::
  "(string \<Rightarrow> bool) \<Rightarrow> (string \<Rightarrow> bool) \<Rightarrow> dao_request \<Rightarrow> dao_collection \<Rightarrow> dao_collection" where
  "dao_step ObjectId_isValid PublicKey_accepts request db =
     (case request of
        CreateProposal newId now t d c \<Rightarrow> snd (create_proposal PublicKey_accepts newId now t d c db)
      | Vote now pid vt vw \<Rightarrow> snd (vote ObjectId_isValid PublicKey_accepts now pid vt vw db))"

fun dao_run ::
  "(string \<Rightarrow> bool) \<Rightarrow> (string \<Rightarrow> bool) \<Rightarrow> dao_request list \<Rightarrow> dao_collection \<Rightarrow> dao_collection" where
  "dao_run ObjectId_isValid PublicKey_accepts [] db = db"
| "dao_run ObjectId_isValid PublicKey_accepts (request # requests) db =
     dao_run ObjectId_isValid PublicKey_accepts requests
       (dao_step ObjectId_isValid PublicKey_accepts request db)"

text \<open>
  The invariant of the tally: the two counters add up to the number of voters, and no wallet
  is among the voters twice.
\<close>

definition tally_matches_voters :: "DaoProposal \<Rightarrow> bool" where
  "tally_matches_voters proposal =
     (votesFor proposal + votesAgainst proposal = int (length (voters proposal))
      \<and> distinct (voters proposal))"

definition all_tallies_match :: "dao_collection \<Rightarrow> bool" where
  "all_tallies_match db = (\<forall>pid proposal. db pid = Some proposal \<longrightarrow> tally_matches_voters proposal)"

section \<open>The accrual of rewards\<close>

lemma calculateRewards_closed:
  "calculateRewards now s lastDate = s * real_of_int (now - lastDate) / 315360000000"
  by (simp add: calculateRewards_def STAKING_APR_def Let_def)



text \<open>
  Claim C2, as stated, fails: the code has no clamp. A principal of 365 whose last action
  lies one day after \<open>now\<close> accrues \<open>- 1 / 10\<close>.
\<close>

theorem calculateRewards_negative_counterexample:
  "(0::real) \<le> 365 \<and> calculateRewards 0 365 86400000 = - (1 / 10)
   \<and> \<not> 0 \<le> calculateRewards 0 365 86400000"
  by (simp add: calculateRewards_closed)

text \<open>
  Claim C2, amended. For a principal that is not negative, the accrual is not negative when
  the elapsed time is not, and it is exactly 0 when the elapsed time is 0; a negative elapsed
  time is not clamped: with a positive principal the accrual is negative.
\<close>

theorem calculateRewards_sign:
  assumes "0 \<le> s"
  shows "(lastDate \<le> now \<longrightarrow> 0 \<le> calculateRewards now s lastDate)
       \<and> calculateRewards lastDate s lastDate = 0
       \<and> (0 < s \<and> now < lastDate \<longrightarrow> calculateRewards now s lastDate < 0)"
  using assms by (auto simp add: calculateRewards_closed mult_less_0_iff)

theorem calculateRewards_sign_witness:
  "0 \<le> calculateRewards 86400000 100 0 \<and> calculateRewards 5 100 5 = 0
   \<and> calculateRewards 0 100 86400000 < 0"
  using calculateRewards_sign [where s = 100 and now = 86400000 and lastDate = 0]
    calculateRewards_sign [where s = 100 and now = 5 and lastDate = 5]
    calculateRewards_sign [where s = 100 and now = 0 and lastDate = 86400000]
  by simp

section \<open>Staking\<close>

lemma stake_existing:
  assumes "w \<noteq> []" and "0 < a" and "db w = Some user"
  shows "stake now (Some w) (Some a) db =
     (let folded = rewards user
            + calculateRewards now (stakedAmount user) (lastStakedOrUnstaked user);
          user' = \<lparr>stakedAmount = stakedAmount user + a, rewards = folded,
                   lastClaimed = lastClaimed user, lastStakedOrUnstaked = now\<rparr>
      in if 0 \<le> folded \<and> 0 \<le> stakedAmount user + a
         then (Inr user', db(w \<mapsto> user')) else (Inl ServerError, db))"
  using assms
  by (cases user)
    (simp add: stake_def stake_find_def stake_save_def save_StakingUser_def
      validate_StakingUser_def falsy_string_def falsy_number_def Let_def)

lemma stake_fresh:
  assumes "w \<noteq> []" and "0 < a" and "db w = None"
  shows "stake now (Some w) (Some a) db =
     (Inr \<lparr>stakedAmount = a, rewards = 0, lastClaimed = now, lastStakedOrUnstaked = now\<rparr>,
      db(w \<mapsto> \<lparr>stakedAmount = a, rewards = 0, lastClaimed = now, lastStakedOrUnstaked = now\<rparr>))"
  using assms
  by (simp add: stake_def stake_find_def stake_save_def save_StakingUser_def
      validate_StakingUser_def falsy_string_def falsy_number_def Let_def)

text \<open>
  Claim C1. A stake of a positive amount on an existing record adds the accrual of the old
  principal since \<open>lastStakedOrUnstaked\<close> to \<open>rewards\<close>, then adds the amount to
  \<open>stakedAmount\<close> and sets \<open>lastStakedOrUnstaked\<close> to \<open>now\<close>; it succeeds when the two new
  amounts pass the validators of the schema. Without a record, one with zero amounts is made
  first. So a stake of 100 at \<open>t0\<close> and one of 50 at \<open>t1\<close>, on a wallet without a record, leave
  \<open>stakedAmount\<close> 150 and \<open>rewards\<close> the accrual of 100 over \<open>t1 - t0\<close>.
\<close>

theorem stake_checkpoints_old_principal:
  assumes "w \<noteq> []" and "0 < a"
  shows "(\<forall>user. db w = Some user \<longrightarrow>
            stake now (Some w) (Some a) db =
              (let folded = rewards user
                     + calculateRewards now (stakedAmount user) (lastStakedOrUnstaked user);
                   user' = \<lparr>stakedAmount = stakedAmount user + a, rewards = folded,
                            lastClaimed = lastClaimed user, lastStakedOrUnstaked = now\<rparr>
               in if 0 \<le> folded \<and> 0 \<le> stakedAmount user + a
                  then (Inr user', db(w \<mapsto> user')) else (Inl ServerError, db)))
       \<and> (db w = None \<longrightarrow>
            stake now (Some w) (Some a) db =
              (Inr \<lparr>stakedAmount = 0 + a, rewards = 0, lastClaimed = now, lastStakedOrUnstaked = now\<rparr>,
               db(w \<mapsto> \<lparr>stakedAmount = 0 + a, rewards = 0, lastClaimed = now,
                         lastStakedOrUnstaked = now\<rparr>)))
       \<and> (\<forall>t0 t1. db w = None \<and> t0 \<le> t1 \<longrightarrow>
            snd (stake t1 (Some w) (Some 50) (snd (stake t0 (Some w) (Some 100) db))) w =
              Some \<lparr>stakedAmount = 150,
                    rewards = accrue_reference 100 (real_of_int (t1 - t0)) STAKING_APR,
                    lastClaimed = t0, lastStakedOrUnstaked = t1\<rparr>)"
proof (intro conjI allI impI)
  fix user assume found: "db w = Some user"
  show "stake now (Some w) (Some a) db =
              (let folded = rewards user
                     + calculateRewards now (stakedAmount user) (lastStakedOrUnstaked user);
                   user' = \<lparr>stakedAmount = stakedAmount user + a, rewards = folded,
                            lastClaimed = lastClaimed user, lastStakedOrUnstaked = now\<rparr>
               in if 0 \<le> folded \<and> 0 \<le> stakedAmount user + a
                  then (Inr user', db(w \<mapsto> user')) else (Inl ServerError, db))"
    using assms found
      stake_existing [where w = w and a = a and db = db and user = user and now = now]
    by blast
next
  assume "db w = None"
  then show "stake now (Some w) (Some a) db =
              (Inr \<lparr>stakedAmount = 0 + a, rewards = 0, lastClaimed = now, lastStakedOrUnstaked = now\<rparr>,
               db(w \<mapsto> \<lparr>stakedAmount = 0 + a, rewards = 0, lastClaimed = now,
                         lastStakedOrUnstaked = now\<rparr>))"
    using assms by (simp add: stake_fresh)
next
  fix t0 t1 :: int assume h: "db w = None \<and> t0 \<le> t1"
  let ?u0 = "\<lparr>stakedAmount = 100, rewards = 0, lastClaimed = t0, lastStakedOrUnstaked = t0\<rparr>"
  have first: "snd (stake t0 (Some w) (Some 100) db) = db(w \<mapsto> ?u0)"
    using assms(1) h by (simp add: stake_fresh)
  have nonneg: "0 \<le> calculateRewards t1 100 t0"
    using h by (simp add: calculateRewards_closed)
  have ref: "calculateRewards t1 100 t0 = accrue_reference 100 (real_of_int (t1 - t0)) STAKING_APR"
    by (simp add: calculateRewards_def accrue_reference_def Let_def)
  have "(db(w \<mapsto> ?u0)) w = Some ?u0" by simp
  from stake_existing [where w = w and a = 50 and now = t1 and db = "db(w \<mapsto> ?u0)" and user = ?u0]
    assms(1) this nonneg ref
  show "snd (stake t1 (Some w) (Some 50) (snd (stake t0 (Some w) (Some 100) db))) w =
              Some \<lparr>stakedAmount = 150,
                    rewards = accrue_reference 100 (real_of_int (t1 - t0)) STAKING_APR,
                    lastClaimed = t0, lastStakedOrUnstaked = t1\<rparr>"
    by (simp add: first Let_def)
qed

theorem stake_checkpoints_old_principal_witness:
  "stake 86400000 (Some ''W1'') (Some 50)
      (Map.empty(''W1'' \<mapsto> \<lparr>stakedAmount = 100, rewards = 0, lastClaimed = 0, lastStakedOrUnstaked = 0\<rparr>))
     = (Inr \<lparr>stakedAmount = 150, rewards = 2 / 73, lastClaimed = 0, lastStakedOrUnstaked = 86400000\<rparr>,
        Map.empty(''W1'' \<mapsto> \<lparr>stakedAmount = 150, rewards = 2 / 73, lastClaimed = 0,
                              lastStakedOrUnstaked = 86400000\<rparr>))
   \<and> stake 0 (Some ''W1'') (Some 100) Map.empty
     = (Inr \<lparr>stakedAmount = 100, rewards = 0, lastClaimed = 0, lastStakedOrUnstaked = 0\<rparr>,
        Map.empty(''W1'' \<mapsto> \<lparr>stakedAmount = 100, rewards = 0, lastClaimed = 0, lastStakedOrUnstaked = 0\<rparr>))
   \<and> snd (stake 86400000 (Some ''W1'') (Some 50) (snd (stake 0 (Some ''W1'') (Some 100) Map.empty))) ''W1''
     = Some \<lparr>stakedAmount = 150, rewards = 2 / 73, lastClaimed = 0, lastStakedOrUnstaked = 86400000\<rparr>"
  using stake_checkpoints_old_principal [where w = "''W1''" and a = 50 and now = 86400000
      and db = "Map.empty(''W1'' \<mapsto> \<lparr>stakedAmount = 100, rewards = 0, lastClaimed = 0, lastStakedOrUnstaked = 0\<rparr>)"]
    stake_checkpoints_old_principal [where w = "''W1''" and a = 100 and now = 0 and db = Map.empty]
  by (simp add: calculateRewards_closed accrue_reference_def STAKING_APR_def Let_def)

subsection \<open>Claiming\<close>

lemma claim_rewards_existing:
  assumes "w \<noteq> []" and "db w = Some user"
  shows "claim_rewards now (Some w) db =
     (let live = rewards user
            + calculateRewards now (stakedAmount user) (lastStakedOrUnstaked user);
          user' = \<lparr>stakedAmount = stakedAmount user, rewards = 0,
                   lastClaimed = now, lastStakedOrUnstaked = now\<rparr>
      in if live \<le> 0 then (Inl NoRewardsToClaim, db)
         else if 0 \<le> stakedAmount user then (Inr (toFixed2 live, user'), db(w \<mapsto> user'))
         else (Inl ServerError, db))"
  using assms
  by (cases user)
    (simp add: claim_rewards_def save_StakingUser_def validate_StakingUser_def
      falsy_string_def Let_def)

text \<open>
  Claim C5, as stated, fails: the answer of a claim does not hold the live reward itself.
  After a stake of 100 at instant 0, the live reward one day later is \<open>100 * (0.10 / 365) * 1\<close>;
  the answer is the message with \<^verbatim>\<open>toFixed(2)\<close> of it, which prints 0.03, and the document.
\<close>

theorem claim_reports_rounded_counterexample:
  "fst (claim_rewards 86400000 (Some ''W1'') (snd (stake 0 (Some ''W1'') (Some 100) Map.empty)))
     = Inr (3, \<lparr>stakedAmount = 100, rewards = 0, lastClaimed = 86400000,
                lastStakedOrUnstaked = 86400000\<rparr>)
   \<and> 0 + calculateRewards 86400000 100 0 = 100 * (0.10 / 365) * 1
   \<and> real_of_int 3 / 100 \<noteq> 100 * (0.10 / 365) * 1"
  by (simp add: stake_fresh claim_rewards_existing calculateRewards_closed toFixed2_def Let_def)

text \<open>
  Claim C5, amended. Without a record a claim fails with \<open>StakingUserNotFound\<close>. On a record,
  with the live reward \<open>rewards + calculateRewards now stakedAmount lastStakedOrUnstaked\<close>:
  when it is at most 0 the claim fails with \<open>NoRewardsToClaim\<close>; when it is positive (and the
  record has the \<open>stakedAmount\<close> the schema allows) the claim sets \<open>rewards\<close> to 0 and both
  timestamps to \<open>now\<close>, and answers with the live reward printed to two decimals and the
  updated document. Both failures leave the collection as it was. A stake of 100 at instant 0
  claimed one day later claims \<open>100 * (0.10 / 365) * 1\<close>, printed as 0.03.
\<close>

theorem claim_rewards_transition:
  assumes "w \<noteq> []"
  shows "(db w = None \<longrightarrow> claim_rewards now (Some w) db = (Inl StakingUserNotFound, db))
       \<and> (\<forall>user. db w = Some user \<longrightarrow>
            (let live = rewards user
                   + calculateRewards now (stakedAmount user) (lastStakedOrUnstaked user);
                 user' = \<lparr>stakedAmount = stakedAmount user, rewards = 0,
                          lastClaimed = now, lastStakedOrUnstaked = now\<rparr>
             in (live \<le> 0 \<longrightarrow> claim_rewards now (Some w) db = (Inl NoRewardsToClaim, db))
              \<and> (0 < live \<and> 0 \<le> stakedAmount user \<longrightarrow>
                   claim_rewards now (Some w) db = (Inr (toFixed2 live, user'), db(w \<mapsto> user')))))
       \<and> fst (claim_rewards 86400000 (Some w) (snd (stake 0 (Some w) (Some 100) Map.empty)))
           = Inr (toFixed2 (100 * (0.10 / 365) * 1),
                  \<lparr>stakedAmount = 100, rewards = 0, lastClaimed = 86400000,
                   lastStakedOrUnstaked = 86400000\<rparr>)
       \<and> toFixed2 (100 * (0.10 / 365) * 1) = 3"
proof (intro conjI allI impI)
  assume "db w = None"
  then show "claim_rewards now (Some w) db = (Inl StakingUserNotFound, db)"
    using assms by (simp add: claim_rewards_def falsy_string_def)
next
  fix user assume found: "db w = Some user"
  show "let live = rewards user
                   + calculateRewards now (stakedAmount user) (lastStakedOrUnstaked user);
                 user' = \<lparr>stakedAmount = stakedAmount user, rewards = 0,
                          lastClaimed = now, lastStakedOrUnstaked = now\<rparr>
             in (live \<le> 0 \<longrightarrow> claim_rewards now (Some w) db = (Inl NoRewardsToClaim, db))
              \<and> (0 < live \<and> 0 \<le> stakedAmount user \<longrightarrow>
                   claim_rewards now (Some w) db = (Inr (toFixed2 live, user'), db(w \<mapsto> user')))"
    using assms found
      claim_rewards_existing [where w = w and db = db and user = user and now = now]
    by (simp add: Let_def)
next
  show "fst (claim_rewards 86400000 (Some w) (snd (stake 0 (Some w) (Some 100) Map.empty)))
           = Inr (toFixed2 (100 * (0.10 / 365) * 1),
                  \<lparr>stakedAmount = 100, rewards = 0, lastClaimed = 86400000,
                   lastStakedOrUnstaked = 86400000\<rparr>)"
    using assms
    by (simp add: stake_fresh claim_rewards_existing calculateRewards_closed Let_def)
next
  show "toFixed2 (100 * (0.10 / 365) * 1) = 3"
    by (simp add: toFixed2_def)
qed

theorem claim_rewards_transition_witness:
  "claim_rewards 86400000 (Some ''W1'')
      (Map.empty(''W1'' \<mapsto> \<lparr>stakedAmount = 100, rewards = 0, lastClaimed = 0, lastStakedOrUnstaked = 0\<rparr>))
     = (Inr (3, \<lparr>stakedAmount = 100, rewards = 0, lastClaimed = 86400000,
                 lastStakedOrUnstaked = 86400000\<rparr>),
        Map.empty(''W1'' \<mapsto> \<lparr>stakedAmount = 100, rewards = 0, lastClaimed = 86400000,
                              lastStakedOrUnstaked = 86400000\<rparr>))
   \<and> claim_rewards 0 (Some ''W1'')
      (Map.empty(''W1'' \<mapsto> \<lparr>stakedAmount = 100, rewards = 0, lastClaimed = 0, lastStakedOrUnstaked = 0\<rparr>))
     = (Inl NoRewardsToClaim,
        Map.empty(''W1'' \<mapsto> \<lparr>stakedAmount = 100, rewards = 0, lastClaimed = 0, lastStakedOrUnstaked = 0\<rparr>))
   \<and> claim_rewards 0 (Some ''W1'') Map.empty = (Inl StakingUserNotFound, Map.empty)"
  using claim_rewards_transition [where w = "''W1''" and now = 86400000
      and db = "Map.empty(''W1'' \<mapsto> \<lparr>stakedAmount = 100, rewards = 0, lastClaimed = 0, lastStakedOrUnstaked = 0\<rparr>)"]
    claim_rewards_transition [where w = "''W1''" and now = 0
      and db = "Map.empty(''W1'' \<mapsto> \<lparr>stakedAmount = 100, rewards = 0, lastClaimed = 0, lastStakedOrUnstaked = 0\<rparr>)"]
    claim_rewards_transition [where w = "''W1''" and now = 0 and db = Map.empty]
  by (simp add: calculateRewards_closed toFixed2_def Let_def)

subsection \<open>Unstaking\<close>

lemma unstake_existing:
  assumes "w \<noteq> []" and "db w = Some user"
  shows "unstake now (Some w) db =
     (let folded = rewards user
            + calculateRewards now (stakedAmount user) (lastStakedOrUnstaked user);
          user' = \<lparr>stakedAmount = 0, rewards = 0, lastClaimed = now, lastStakedOrUnstaked = now\<rparr>
      in if stakedAmount user \<le> 0 then (Inl NoAfoxStaked, db)
         else (Inr (toFixed2 (stakedAmount user + folded), user'), db(w \<mapsto> user')))"
  using assms
  by (cases user)
    (simp add: unstake_def save_StakingUser_def validate_StakingUser_def
      falsy_string_def Let_def)

text \<open>
  Claim C6, as stated, fails: the answer of an unstake does not hold the total itself.
  After a stake of 100 at instant 0, the total one day later is \<open>100 + 2 / 73\<close>; the answer
  is the message with \<^verbatim>\<open>toFixed(2)\<close> of it, which prints 100.03, and the document.
\<close>

theorem unstake_reports_rounded_counterexample:
  "fst (unstake 86400000 (Some ''W1'') (snd (stake 0 (Some ''W1'') (Some 100) Map.empty)))
     = Inr (10003, \<lparr>stakedAmount = 0, rewards = 0, lastClaimed = 86400000,
                    lastStakedOrUnstaked = 86400000\<rparr>)
   \<and> 100 + (0 + calculateRewards 86400000 100 0) = 100 + 2 / 73
   \<and> real_of_int 10003 / 100 \<noteq> 100 + 2 / 73"
  by (simp add: stake_fresh unstake_existing calculateRewards_closed toFixed2_def Let_def)

text \<open>
  Claim C6, amended. Without a record an unstake fails with \<open>StakingUserNotFound\<close>, and on a
  record whose \<open>stakedAmount\<close> is at most 0 with \<open>NoAfoxStaked\<close>; both leave the collection
  as it was. On a record with a positive \<open>stakedAmount\<close> it folds the accrual into \<open>rewards\<close>,
  takes the total \<open>stakedAmount + rewards\<close>, sets both amounts to 0 and both timestamps to
  \<open>now\<close>, and answers with the total printed to two decimals and the updated document.
\<close>

theorem unstake_transition:
  assumes "w \<noteq> []"
  shows "(db w = None \<longrightarrow> unstake now (Some w) db = (Inl StakingUserNotFound, db))
       \<and> (\<forall>user. db w = Some user \<longrightarrow>
            (let folded = rewards user
                   + calculateRewards now (stakedAmount user) (lastStakedOrUnstaked user);
                 user' = \<lparr>stakedAmount = 0, rewards = 0, lastClaimed = now,
                          lastStakedOrUnstaked = now\<rparr>
             in (stakedAmount user \<le> 0 \<longrightarrow> unstake now (Some w) db = (Inl NoAfoxStaked, db))
              \<and> (0 < stakedAmount user \<longrightarrow>
                   unstake now (Some w) db
                     = (Inr (toFixed2 (stakedAmount user + folded), user'), db(w \<mapsto> user')))))"
proof (intro conjI allI impI)
  assume "db w = None"
  then show "unstake now (Some w) db = (Inl StakingUserNotFound, db)"
    using assms by (simp add: unstake_def falsy_string_def)
next
  fix user assume found: "db w = Some user"
  show "let folded = rewards user
                   + calculateRewards now (stakedAmount user) (lastStakedOrUnstaked user);
                 user' = \<lparr>stakedAmount = 0, rewards = 0, lastClaimed = now,
                          lastStakedOrUnstaked = now\<rparr>
             in (stakedAmount user \<le> 0 \<longrightarrow> unstake now (Some w) db = (Inl NoAfoxStaked, db))
              \<and> (0 < stakedAmount user \<longrightarrow>
                   unstake now (Some w) db
                     = (Inr (toFixed2 (stakedAmount user + folded), user'), db(w \<mapsto> user')))"
    using assms found
      unstake_existing [where w = w and db = db and user = user and now = now]
    by (simp add: Let_def)
qed

theorem unstake_transition_witness:
  "unstake 86400000 (Some ''W1'')
      (Map.empty(''W1'' \<mapsto> \<lparr>stakedAmount = 100, rewards = 0, lastClaimed = 0, lastStakedOrUnstaked = 0\<rparr>))
     = (Inr (10003, \<lparr>stakedAmount = 0, rewards = 0, lastClaimed = 86400000,
                     lastStakedOrUnstaked = 86400000\<rparr>),
        Map.empty(''W1'' \<mapsto> \<lparr>stakedAmount = 0, rewards = 0, lastClaimed = 86400000,
                              lastStakedOrUnstaked = 86400000\<rparr>))
   \<and> unstake 5 (Some ''W1'')
      (Map.empty(''W1'' \<mapsto> \<lparr>stakedAmount = 0, rewards = 0, lastClaimed = 0, lastStakedOrUnstaked = 0\<rparr>))
     = (Inl NoAfoxStaked,
        Map.empty(''W1'' \<mapsto> \<lparr>stakedAmount = 0, rewards = 0, lastClaimed = 0, lastStakedOrUnstaked = 0\<rparr>))
   \<and> unstake 0 (Some ''W1'') Map.empty = (Inl StakingUserNotFound, Map.empty)"
  using unstake_transition [where w = "''W1''" and now = 86400000
      and db = "Map.empty(''W1'' \<mapsto> \<lparr>stakedAmount = 100, rewards = 0, lastClaimed = 0, lastStakedOrUnstaked = 0\<rparr>)"]
    unstake_transition [where w = "''W1''" and now = 5
      and db = "Map.empty(''W1'' \<mapsto> \<lparr>stakedAmount = 0, rewards = 0, lastClaimed = 0, lastStakedOrUnstaked = 0\<rparr>)"]
    unstake_transition [where w = "''W1''" and now = 0 and db = Map.empty]
  by (simp add: calculateRewards_closed toFixed2_def Let_def)

subsection \<open>Querying\<close>

text \<open>
  Claim C8. The query leaves the collection as it was. On a record it answers with the stored
  \<open>stakedAmount\<close> and the live reward; without a record it answers with zeros, and the wallet
  still has no record.
\<close>

theorem get_staking_is_projection:
  "snd (get_staking now w db) = db
   \<and> (\<forall>user. db w = Some user \<longrightarrow>
        fst (get_staking now w db) =
          \<lparr>view_stakedAmount = stakedAmount user,
           view_rewards = rewards user
             + calculateRewards now (stakedAmount user) (lastStakedOrUnstaked user),
           view_lastClaimed = Some (lastClaimed user),
           view_lastStakedOrUnstaked = Some (lastStakedOrUnstaked user)\<rparr>)
   \<and> (db w = None \<longrightarrow>
        fst (get_staking now w db) =
          \<lparr>view_stakedAmount = 0, view_rewards = 0,
           view_lastClaimed = None, view_lastStakedOrUnstaked = None\<rparr>
        \<and> snd (get_staking now w db) w = None)"
  by (auto simp add: get_staking_def Let_def split: option.splits)

theorem get_staking_is_projection_witness:
  "get_staking 86400000 ''W1''
      (Map.empty(''W1'' \<mapsto> \<lparr>stakedAmount = 100, rewards = 1, lastClaimed = 0, lastStakedOrUnstaked = 0\<rparr>))
     = (\<lparr>view_stakedAmount = 100, view_rewards = 1 + 2 / 73,
         view_lastClaimed = Some 0, view_lastStakedOrUnstaked = Some 0\<rparr>,
        Map.empty(''W1'' \<mapsto> \<lparr>stakedAmount = 100, rewards = 1, lastClaimed = 0, lastStakedOrUnstaked = 0\<rparr>))
   \<and> get_staking 86400000 ''W2'' Map.empty
     = (\<lparr>view_stakedAmount = 0, view_rewards = 0,
         view_lastClaimed = None, view_lastStakedOrUnstaked = None\<rparr>, Map.empty)"
  using get_staking_is_projection [where w = "''W1''" and now = 86400000
      and db = "Map.empty(''W1'' \<mapsto> \<lparr>stakedAmount = 100, rewards = 1, lastClaimed = 0, lastStakedOrUnstaked = 0\<rparr>)"]
    get_staking_is_projection [where w = "''W2''" and now = 86400000 and db = Map.empty]
  by (simp add: calculateRewards_closed prod_eq_iff)

subsection \<open>Stake handlers that overlap\<close>

text \<open>
  Claim C10, as stated, fails: nothing serializes two handlers on one wallet. Two stakes of 1
  on a wallet without a record, both reading before either writes: the second write is
  refused by the unique index and answered with status 500, and \<open>stakedAmount\<close> ends at 1.
  On a record with \<open>stakedAmount\<close> 10 both writes succeed, and \<open>stakedAmount\<close> ends at 11.
\<close>

theorem interleaved_stakes_lose_update_counterexample:
  "run_schedule [(0, 0), (1, 0), (0, 0), (1, 0)]
      [Requested (Some ''W1'') (Some 1), Requested (Some ''W1'') (Some 1)] Map.empty
     = ([Responded (Inr \<lparr>stakedAmount = 1, rewards = 0, lastClaimed = 0, lastStakedOrUnstaked = 0\<rparr>),
         Responded (Inl ServerError)],
        Map.empty(''W1'' \<mapsto> \<lparr>stakedAmount = 1, rewards = 0, lastClaimed = 0, lastStakedOrUnstaked = 0\<rparr>))
   \<and> run_schedule [(0, 5), (1, 5), (0, 5), (1, 5)]
      [Requested (Some ''W1'') (Some 1), Requested (Some ''W1'') (Some 1)]
      (Map.empty(''W1'' \<mapsto> \<lparr>stakedAmount = 10, rewards = 0, lastClaimed = 5, lastStakedOrUnstaked = 5\<rparr>))
     = ([Responded (Inr \<lparr>stakedAmount = 11, rewards = 0, lastClaimed = 5, lastStakedOrUnstaked = 5\<rparr>),
         Responded (Inr \<lparr>stakedAmount = 11, rewards = 0, lastClaimed = 5, lastStakedOrUnstaked = 5\<rparr>)],
        Map.empty(''W1'' \<mapsto> \<lparr>stakedAmount = 11, rewards = 0, lastClaimed = 5, lastStakedOrUnstaked = 5\<rparr>))"
  by (simp add: stake_task_step_def stake_find_def stake_save_def save_StakingUser_def
      validate_StakingUser_def falsy_string_def falsy_number_def calculateRewards_closed Let_def)

lemma stake_is_two_steps:
  "run_schedule [(0, now), (0, now)] [Requested wa am] db
     = ([Responded (fst (stake now wa am db))], snd (stake now wa am db))"
  by (auto simp add: stake_def stake_task_step_def split: sum.splits prod.splits)

lemma stake_sequence_existing:
  assumes "w \<noteq> []" and "0 \<le> stakedAmount user" and "0 \<le> rewards user"
    and "sorted (lastStakedOrUnstaked user # nows)"
  shows "\<exists>user'. stake_sequence w 1 nows (db(w \<mapsto> user)) w = Some user'
           \<and> stakedAmount user' = stakedAmount user + real (length nows)"
  using assms
proof (induction nows arbitrary: user)
  case Nil
  then show ?case by simp
next
  case (Cons now nows)
  let ?folded = "rewards user + calculateRewards now (stakedAmount user) (lastStakedOrUnstaked user)"
  let ?user1 = "\<lparr>stakedAmount = stakedAmount user + 1, rewards = ?folded,
                   lastClaimed = lastClaimed user, lastStakedOrUnstaked = now\<rparr>"
  have time: "lastStakedOrUnstaked user \<le> now" using Cons.prems(4) by simp
  have "0 \<le> calculateRewards now (stakedAmount user) (lastStakedOrUnstaked user)"
    using Cons.prems(2) time by (simp add: calculateRewards_closed)
  then have folded: "0 \<le> ?folded" using Cons.prems(3) by simp
  have "(db(w \<mapsto> user)) w = Some user" by simp
  then have step: "snd (stake now (Some w) (Some 1) (db(w \<mapsto> user))) = db(w \<mapsto> ?user1)"
    using stake_existing [where w = w and a = 1 and db = "db(w \<mapsto> user)" and user = user
        and now = now]
      Cons.prems(1,2) folded
    by (simp add: Let_def)
  have "sorted (lastStakedOrUnstaked ?user1 # nows)" using Cons.prems(4) by simp
  moreover have "0 \<le> stakedAmount ?user1" using Cons.prems(2) by simp
  moreover have "0 \<le> rewards ?user1" using folded by simp
  ultimately have "\<exists>user'. stake_sequence w 1 nows (db(w \<mapsto> ?user1)) w = Some user'
           \<and> stakedAmount user' = stakedAmount ?user1 + real (length nows)"
    using Cons.prems(1) by (intro Cons.IH)
  then show ?case unfolding stake_sequence.simps step by (simp add: add.assoc)
qed

lemma overlap_fresh:
  assumes "w \<noteq> []" and "db w = None" and "0 < amountA" and "0 < amountB"
  shows "run_schedule [(0, readA), (1, readB), (0, saveA), (1, saveB)]
           [Requested (Some w) (Some amountA), Requested (Some w) (Some amountB)] db
         = ([Responded (Inr \<lparr>stakedAmount = amountA, rewards = 0, lastClaimed = saveA,
                               lastStakedOrUnstaked = saveA\<rparr>),
             Responded (Inl ServerError)],
            db(w \<mapsto> \<lparr>stakedAmount = amountA, rewards = 0, lastClaimed = saveA,
                      lastStakedOrUnstaked = saveA\<rparr>))"
  using assms
  by (simp add: stake_task_step_def stake_find_def stake_save_def save_StakingUser_def
      validate_StakingUser_def falsy_string_def falsy_number_def Let_def)

lemma overlap_existing:
  assumes "w \<noteq> []" and "db w = Some user" and "0 < amountA" and "0 < amountB"
    and "0 \<le> stakedAmount user"
    and "0 \<le> rewards user + calculateRewards saveA (stakedAmount user) (lastStakedOrUnstaked user)"
    and "0 \<le> rewards user + calculateRewards saveB (stakedAmount user) (lastStakedOrUnstaked user)"
  shows "run_schedule [(0, readA), (1, readB), (0, saveA), (1, saveB)]
           [Requested (Some w) (Some amountA), Requested (Some w) (Some amountB)] db
         = ([Responded (Inr \<lparr>stakedAmount = stakedAmount user + amountA,
                               rewards = rewards user
                                 + calculateRewards saveA (stakedAmount user) (lastStakedOrUnstaked user),
                               lastClaimed = lastClaimed user, lastStakedOrUnstaked = saveA\<rparr>),
             Responded (Inr \<lparr>stakedAmount = stakedAmount user + amountB,
                               rewards = rewards user
                                 + calculateRewards saveB (stakedAmount user) (lastStakedOrUnstaked user),
                               lastClaimed = lastClaimed user, lastStakedOrUnstaked = saveB\<rparr>)],
            db(w \<mapsto> \<lparr>stakedAmount = stakedAmount user + amountB,
                      rewards = rewards user
                        + calculateRewards saveB (stakedAmount user) (lastStakedOrUnstaked user),
                      lastClaimed = lastClaimed user, lastStakedOrUnstaked = saveB\<rparr>))"
  using assms
  by (cases user)
    (simp add: stake_task_step_def stake_find_def stake_save_def save_StakingUser_def
      validate_StakingUser_def falsy_string_def falsy_number_def Let_def)


text \<open>
  Claim C10, amended. Nothing serializes the stake handlers of one wallet. Stakes of 1 on a
  wallet without a record, served one after the other at instants that do not decrease, leave
  \<open>stakedAmount\<close> equal to their number, and a handler whose two steps run back to back is the
  sequential \<open>stake\<close>. When two stake handlers of one wallet both read before either writes,
  an update is lost: on a wallet without a record the second write is refused and answered
  with status 500, and \<open>stakedAmount\<close> is the first amount alone; on a record (whose amounts
  pass the validators, at both instants) both writes succeed and \<open>stakedAmount\<close> ends as the
  old principal plus the second amount alone.
\<close>

theorem sequential_stakes_add_up:
  assumes "w \<noteq> []" and "db w = None" and "sorted nows" and "nows \<noteq> []"
  shows "map_option stakedAmount (stake_sequence w 1 nows db w) = Some (real (length nows))
       \<and> (\<forall>now wa am. run_schedule [(0, now), (0, now)] [Requested wa am] db
             = ([Responded (fst (stake now wa am db))], snd (stake now wa am db)))
       \<and> (\<forall>amountA amountB readA readB saveA saveB. 0 < amountA \<and> 0 < amountB \<longrightarrow>
            run_schedule [(0, readA), (1, readB), (0, saveA), (1, saveB)]
              [Requested (Some w) (Some amountA), Requested (Some w) (Some amountB)] db
            = ([Responded (Inr \<lparr>stakedAmount = amountA, rewards = 0, lastClaimed = saveA,
                                  lastStakedOrUnstaked = saveA\<rparr>),
                Responded (Inl ServerError)],
               db(w \<mapsto> \<lparr>stakedAmount = amountA, rewards = 0, lastClaimed = saveA,
                         lastStakedOrUnstaked = saveA\<rparr>)))
       \<and> (\<forall>user amountA amountB readA readB saveA saveB.
            0 < amountA \<and> 0 < amountB \<and> 0 \<le> stakedAmount user
            \<and> 0 \<le> rewards user
                  + calculateRewards saveA (stakedAmount user) (lastStakedOrUnstaked user)
            \<and> 0 \<le> rewards user
                  + calculateRewards saveB (stakedAmount user) (lastStakedOrUnstaked user)
            \<longrightarrow>
            run_schedule [(0, readA), (1, readB), (0, saveA), (1, saveB)]
              [Requested (Some w) (Some amountA), Requested (Some w) (Some amountB)] (db(w \<mapsto> user))
            = ([Responded (Inr \<lparr>stakedAmount = stakedAmount user + amountA,
                                  rewards = rewards user
                                    + calculateRewards saveA (stakedAmount user) (lastStakedOrUnstaked user),
                                  lastClaimed = lastClaimed user, lastStakedOrUnstaked = saveA\<rparr>),
                Responded (Inr \<lparr>stakedAmount = stakedAmount user + amountB,
                                  rewards = rewards user
                                    + calculateRewards saveB (stakedAmount user) (lastStakedOrUnstaked user),
                                  lastClaimed = lastClaimed user, lastStakedOrUnstaked = saveB\<rparr>)],
               db(w \<mapsto> \<lparr>stakedAmount = stakedAmount user + amountB,
                         rewards = rewards user
                           + calculateRewards saveB (stakedAmount user) (lastStakedOrUnstaked user),
                         lastClaimed = lastClaimed user, lastStakedOrUnstaked = saveB\<rparr>)))"
proof -
  obtain now rest where nows: "nows = now # rest" using assms(4) by (cases nows) auto
  let ?user0 = "\<lparr>stakedAmount = 1, rewards = 0, lastClaimed = now, lastStakedOrUnstaked = now\<rparr>"
  have step: "snd (stake now (Some w) (Some 1) db) = db(w \<mapsto> ?user0)"
    using assms(1,2) by (simp add: stake_fresh)
  have "\<exists>user'. stake_sequence w 1 rest (db(w \<mapsto> ?user0)) w = Some user'
           \<and> stakedAmount user' = stakedAmount ?user0 + real (length rest)"
    using stake_sequence_existing [where w = w and db = db and user = ?user0 and nows = rest]
      assms(1,3) nows
    by simp
  then have sum: "map_option stakedAmount (stake_sequence w 1 nows db w) = Some (real (length nows))"
    by (auto simp add: nows step)
  have fresh: "run_schedule [(0, readA), (1, readB), (0, saveA), (1, saveB)]
              [Requested (Some w) (Some amountA), Requested (Some w) (Some amountB)] db
            = ([Responded (Inr \<lparr>stakedAmount = amountA, rewards = 0, lastClaimed = saveA,
                                  lastStakedOrUnstaked = saveA\<rparr>),
                Responded (Inl ServerError)],
               db(w \<mapsto> \<lparr>stakedAmount = amountA, rewards = 0, lastClaimed = saveA,
                         lastStakedOrUnstaked = saveA\<rparr>))"
    if "0 < amountA \<and> 0 < amountB" for amountA amountB readA readB saveA saveB
    using that assms(1,2)
      overlap_fresh [where w = w and db = db and amountA = amountA and amountB = amountB and readA = readA and readB = readB
        and saveA = saveA and saveB = saveB]
    by blast
  have existing: "run_schedule [(0, readA), (1, readB), (0, saveA), (1, saveB)]
              [Requested (Some w) (Some amountA), Requested (Some w) (Some amountB)] (db(w \<mapsto> user))
            = ([Responded (Inr \<lparr>stakedAmount = stakedAmount user + amountA,
                                  rewards = rewards user
                                    + calculateRewards saveA (stakedAmount user) (lastStakedOrUnstaked user),
                                  lastClaimed = lastClaimed user, lastStakedOrUnstaked = saveA\<rparr>),
                Responded (Inr \<lparr>stakedAmount = stakedAmount user + amountB,
                                  rewards = rewards user
                                    + calculateRewards saveB (stakedAmount user) (lastStakedOrUnstaked user),
                                  lastClaimed = lastClaimed user, lastStakedOrUnstaked = saveB\<rparr>)],
               db(w \<mapsto> \<lparr>stakedAmount = stakedAmount user + amountB,
                         rewards = rewards user
                           + calculateRewards saveB (stakedAmount user) (lastStakedOrUnstaked user),
                         lastClaimed = lastClaimed user, lastStakedOrUnstaked = saveB\<rparr>))"
    if "0 < amountA \<and> 0 < amountB \<and> 0 \<le> stakedAmount user
            \<and> 0 \<le> rewards user
                  + calculateRewards saveA (stakedAmount user) (lastStakedOrUnstaked user)
            \<and> 0 \<le> rewards user
                  + calculateRewards saveB (stakedAmount user) (lastStakedOrUnstaked user)"
    for user amountA amountB readA readB saveA saveB
  proof -
    have stored: "(db(w \<mapsto> user)) w = Some user" by simp
    show ?thesis
      using stored that assms(1)
        overlap_existing [where w = w and db = "db(w \<mapsto> user)" and user = user and amountA = amountA
          and amountB = amountB and saveA = saveA and saveB = saveB and readA = readA and readB = readB]
      unfolding fun_upd_upd by blast
  qed
  show ?thesis using sum stake_is_two_steps fresh existing by blast
qed

theorem sequential_stakes_add_up_witness:
  "map_option stakedAmount (stake_sequence ''W1'' 1 [0, 5, 5, 9] Map.empty ''W1'') = Some 4
   \<and> run_schedule [(0, 0), (0, 0)] [Requested (Some ''W1'') (Some 1)] Map.empty
     = ([Responded (Inr \<lparr>stakedAmount = 1, rewards = 0, lastClaimed = 0, lastStakedOrUnstaked = 0\<rparr>)],
        Map.empty(''W1'' \<mapsto> \<lparr>stakedAmount = 1, rewards = 0, lastClaimed = 0, lastStakedOrUnstaked = 0\<rparr>))
   \<and> run_schedule [(0, 0), (1, 0), (0, 3), (1, 4)]
      [Requested (Some ''W1'') (Some 1), Requested (Some ''W1'') (Some 2)] Map.empty
     = ([Responded (Inr \<lparr>stakedAmount = 1, rewards = 0, lastClaimed = 3, lastStakedOrUnstaked = 3\<rparr>),
         Responded (Inl ServerError)],
        Map.empty(''W1'' \<mapsto> \<lparr>stakedAmount = 1, rewards = 0, lastClaimed = 3, lastStakedOrUnstaked = 3\<rparr>))
   \<and> run_schedule [(0, 5), (1, 5), (0, 5), (1, 5)]
      [Requested (Some ''W1'') (Some 1), Requested (Some ''W1'') (Some 2)]
      (Map.empty(''W1'' \<mapsto> \<lparr>stakedAmount = 10, rewards = 0, lastClaimed = 5, lastStakedOrUnstaked = 5\<rparr>))
     = ([Responded (Inr \<lparr>stakedAmount = 11, rewards = 0, lastClaimed = 5, lastStakedOrUnstaked = 5\<rparr>),
         Responded (Inr \<lparr>stakedAmount = 12, rewards = 0, lastClaimed = 5, lastStakedOrUnstaked = 5\<rparr>)],
        Map.empty(''W1'' \<mapsto> \<lparr>stakedAmount = 12, rewards = 0, lastClaimed = 5, lastStakedOrUnstaked = 5\<rparr>))"
  using sequential_stakes_add_up [where w = "''W1''" and db = Map.empty and nows = "[0, 5, 5, 9]"]
  by (simp add: stake_fresh calculateRewards_closed)

section \<open>Voting\<close>

lemma save_DaoProposal_tallies:
  assumes "all_tallies_match db" and "tally_matches_voters proposal"
    and "save_DaoProposal now pid proposal db = Some db'"
  shows "all_tallies_match db'"
  using assms by (auto simp add: save_DaoProposal_def all_tallies_match_def split: if_splits)

lemma vote_tallies:
  assumes "all_tallies_match db"
  shows "all_tallies_match (snd (vote V P now pid vt vw db))"
  using assms
  by (auto simp add: vote_def save_DaoProposal_def all_tallies_match_def
      tally_matches_voters_def Let_def split: option.splits if_splits)

lemma create_proposal_tallies:
  assumes "all_tallies_match db"
  shows "all_tallies_match (snd (create_proposal P newId now t d c db))"
  using assms
  by (auto simp add: create_proposal_def all_tallies_match_def
      tally_matches_voters_def Let_def split: option.splits if_splits)

lemma dao_step_tallies:
  assumes "all_tallies_match db"
  shows "all_tallies_match (dao_step V P request db)"
  using assms
  by (cases request) (simp_all add: dao_step_def vote_tallies create_proposal_tallies)

lemma dao_run_tallies:
  assumes "all_tallies_match db"
  shows "all_tallies_match (dao_run V P requests db)"
  using assms
  by (induction requests arbitrary: db) (simp_all add: dao_step_tallies)

lemma vote_open_request:
  assumes "pid \<noteq> []" and "V pid" and "vw \<noteq> []" and "P vw"
    and "vt = ''for'' \<or> vt = ''against''" and "db pid = Some proposal"
  shows "vote V P now (Some pid) (Some vt) (Some vw) db =
     (if expiresAt proposal \<le> now
      then (if status proposal = active
            then (case save_DaoProposal now pid (proposal\<lparr>status := completed\<rparr>) db of
                    None \<Rightarrow> (Inl ServerError, db)
                  | Some db' \<Rightarrow> (Inl VotingEnded, db'))
            else (Inl VotingEnded, db))
      else if vw \<in> set (voters proposal) then (Inl AlreadyVoted, db)
      else (let proposal' =
                  (if vt = ''for''
                   then proposal\<lparr>votesFor := votesFor proposal + 1, voters := voters proposal @ [vw]\<rparr>
                   else proposal\<lparr>votesAgainst := votesAgainst proposal + 1,
                                 voters := voters proposal @ [vw]\<rparr>)
            in (case save_DaoProposal now pid proposal' db of
                  None \<Rightarrow> (Inl ServerError, db)
                | Some db' \<Rightarrow> (Inr proposal', db'))))"
  using assms by (auto simp add: vote_def falsy_string_def Let_def split: option.splits)

lemma vote_is_find_then_save:
  "vote V P now proposalId voteType voterWallet db =
     (case vote_find V P proposalId voteType voterWallet db of
        Inl e \<Rightarrow> (Inl e, db)
      | Inr (pid, vt, vw, found) \<Rightarrow> vote_save now pid vt vw found db)"
proof (cases "\<exists>pid vt vw. vote_find V P proposalId voteType voterWallet db = Inr (pid, vt, vw, db pid)")
  case False
  then show ?thesis
    by (auto simp add: vote_def vote_find_def split: option.splits if_splits)
next
  case True
  then obtain pid vt vw where
    f: "vote_find V P proposalId voteType voterWallet db = Inr (pid, vt, vw, db pid)" by blast
  then have args: "proposalId = Some pid \<and> voteType = Some vt \<and> voterWallet = Some vw
      \<and> pid \<noteq> [] \<and> vt \<noteq> [] \<and> vw \<noteq> [] \<and> V pid \<and> P vw \<and> (vt = ''for'' \<or> vt = ''against'')"
    by (auto simp add: vote_find_def falsy_string_def split: option.splits if_splits)
  show ?thesis
  proof (cases "db pid")
    case None
    then show ?thesis using f args by (auto simp add: vote_def vote_save_def falsy_string_def)
  next
    case (Some proposal)
    then show ?thesis
      using f args
      by (cases proposal)
        (auto simp add: vote_def vote_save_def save_DaoProposal_def falsy_string_def Let_def)
  qed
qed


text \<open>
  Claim C3, as stated, fails twice. Two votes of one wallet on one proposal, both loaded
  before either is saved: both are answered as cast, and the proposal is left with
  \<open>votesFor\<close> 1 and the wallet twice among its voters. And a vote of a wallet that is among the
  voters, on a proposal after \<open>expiresAt\<close>, is stopped by the check of the expiry, which comes
  first, and not answered with \<open>AlreadyVoted\<close>.
\<close>

theorem overlapping_or_late_votes_counterexample:
  "vote_find (\<lambda>s. length s = 24) solana_address_format
      (Some ''507f1f77bcf86cd799439011'') (Some ''for'') (Some ''11111111111111111111111111111111'')
      (Map.empty(''507f1f77bcf86cd799439011'' \<mapsto>
         \<lparr>title = ''Raise the staking APR'',
          description = ''Raise the staking APR from 10 to 12 percent.'',
          creatorWallet = ''11111111111111111111111111111111'',
          votesFor = 0, votesAgainst = 0, voters = [],
          expiresAt = 604800000, status = active\<rparr>))
     = Inr (''507f1f77bcf86cd799439011'', ''for'', ''11111111111111111111111111111111'',
            Some \<lparr>title = ''Raise the staking APR'',
                  description = ''Raise the staking APR from 10 to 12 percent.'',
                  creatorWallet = ''11111111111111111111111111111111'',
                  votesFor = 0, votesAgainst = 0, voters = [],
                  expiresAt = 604800000, status = active\<rparr>)
   \<and> vote_save 86400000 ''507f1f77bcf86cd799439011'' ''for'' ''11111111111111111111111111111111''
      (Some \<lparr>title = ''Raise the staking APR'',
             description = ''Raise the staking APR from 10 to 12 percent.'',
             creatorWallet = ''11111111111111111111111111111111'',
             votesFor = 0, votesAgainst = 0, voters = [],
             expiresAt = 604800000, status = active\<rparr>)
      (snd (vote_save 86400000 ''507f1f77bcf86cd799439011'' ''for'' ''11111111111111111111111111111111''
         (Some \<lparr>title = ''Raise the staking APR'',
                description = ''Raise the staking APR from 10 to 12 percent.'',
                creatorWallet = ''11111111111111111111111111111111'',
                votesFor = 0, votesAgainst = 0, voters = [],
                expiresAt = 604800000, status = active\<rparr>)
         (Map.empty(''507f1f77bcf86cd799439011'' \<mapsto>
            \<lparr>title = ''Raise the staking APR'',
             description = ''Raise the staking APR from 10 to 12 percent.'',
             creatorWallet = ''11111111111111111111111111111111'',
             votesFor = 0, votesAgainst = 0, voters = [],
             expiresAt = 604800000, status = active\<rparr>))))
     = (Inr \<lparr>title = ''Raise the staking APR'',
             description = ''Raise the staking APR from 10 to 12 percent.'',
             creatorWallet = ''11111111111111111111111111111111'',
             votesFor = 1, votesAgainst = 0, voters = [''11111111111111111111111111111111''],
             expiresAt = 604800000, status = active\<rparr>,
        Map.empty(''507f1f77bcf86cd799439011'' \<mapsto>
            \<lparr>title = ''Raise the staking APR'',
             description = ''Raise the staking APR from 10 to 12 percent.'',
             creatorWallet = ''11111111111111111111111111111111'',
             votesFor = 1, votesAgainst = 0,
             voters = [''11111111111111111111111111111111'', ''11111111111111111111111111111111''],
             expiresAt = 604800000, status = active\<rparr>))
   \<and> vote (\<lambda>s. length s = 24) solana_address_format 691200000
        (Some ''507f1f77bcf86cd799439011'') (Some ''for'') (Some ''11111111111111111111111111111111'')
        (Map.empty(''507f1f77bcf86cd799439011'' \<mapsto>
           \<lparr>title = ''Raise the staking APR'',
            description = ''Raise the staking APR from 10 to 12 percent.'',
            creatorWallet = ''11111111111111111111111111111111'',
            votesFor = 1, votesAgainst = 0, voters = [''11111111111111111111111111111111''],
            expiresAt = 604800000, status = active\<rparr>))
     = (Inl ServerError,
        Map.empty(''507f1f77bcf86cd799439011'' \<mapsto>
           \<lparr>title = ''Raise the staking APR'',
            description = ''Raise the staking APR from 10 to 12 percent.'',
            creatorWallet = ''11111111111111111111111111111111'',
            votesFor = 1, votesAgainst = 0, voters = [''11111111111111111111111111111111''],
            expiresAt = 604800000, status = active\<rparr>))"
  by (simp add: vote_find_def vote_save_def vote_def save_DaoProposal_def validate_DaoProposal_def
      solana_address_format_def base58_alphabet_def falsy_string_def Let_def)

text \<open>
  Claim C3, amended. When the vote handlers run one after the other (a handler whose load and
  save run back to back is \<open>vote\<close>), then after every run of proposal creations and votes,
  from the empty collection or from one whose proposals satisfy it, every proposal has
  \<open>votesFor + votesAgainst\<close> equal to the number of its voters and no wallet twice among them.
  While the voting is open, a well-formed vote of a wallet that is among the voters fails with
  \<open>AlreadyVoted\<close> and leaves the collection as it was.
\<close>

theorem votes_tally_with_voters:
  "((\<forall>pid p. db pid = Some p \<longrightarrow>
        votesFor p + votesAgainst p = int (length (voters p)) \<and> distinct (voters p))
    \<longrightarrow> (\<forall>pid p. dao_run V P requests db pid = Some p \<longrightarrow>
        votesFor p + votesAgainst p = int (length (voters p)) \<and> distinct (voters p)))
   \<and> (\<forall>pid p. dao_run V P requests Map.empty pid = Some p \<longrightarrow>
        votesFor p + votesAgainst p = int (length (voters p)) \<and> distinct (voters p))
   \<and> (\<forall>now pid vt vw proposal.
         pid \<noteq> [] \<and> V pid \<and> vw \<noteq> [] \<and> P vw \<and> (vt = ''for'' \<or> vt = ''against'')
         \<and> db pid = Some proposal \<and> now < expiresAt proposal \<and> vw \<in> set (voters proposal)
         \<longrightarrow> vote V P now (Some pid) (Some vt) (Some vw) db = (Inl AlreadyVoted, db))
   \<and> (\<forall>now proposalId voteType voterWallet.
         vote V P now proposalId voteType voterWallet db =
           (case vote_find V P proposalId voteType voterWallet db of
              Inl e \<Rightarrow> (Inl e, db)
            | Inr (pid, vt, vw, found) \<Rightarrow> vote_save now pid vt vw found db))"
  (is "?kept \<and> ?reached \<and> ?again \<and> ?steps")
proof -
  have run: "all_tallies_match db \<longrightarrow> all_tallies_match (dao_run V P requests db)"
    by (simp add: dao_run_tallies)
  have "all_tallies_match Map.empty" by (simp add: all_tallies_match_def)
  then have fresh: "all_tallies_match (dao_run V P requests Map.empty)" by (rule dao_run_tallies)
  have again: "vote V P now (Some pid) (Some vt) (Some vw) db = (Inl AlreadyVoted, db)"
    if "pid \<noteq> [] \<and> V pid \<and> vw \<noteq> [] \<and> P vw \<and> (vt = ''for'' \<or> vt = ''against'')
         \<and> db pid = Some proposal \<and> now < expiresAt proposal \<and> vw \<in> set (voters proposal)"
    for now pid vt vw proposal
    using that
      vote_open_request [where pid = pid and V = V and vw = vw and P = P and vt = vt
        and db = db and proposal = proposal and now = now]
    by simp
  show ?thesis
  proof (intro conjI)
    show ?kept
      using run unfolding all_tallies_match_def tally_matches_voters_def by blast
    show ?reached
      using fresh unfolding all_tallies_match_def tally_matches_voters_def by blast
    show ?again
      using again by blast
    show ?steps
      by (intro allI) (rule vote_is_find_then_save)
  qed
qed

theorem votes_tally_with_voters_witness:
  "map_option (\<lambda>p. (votesFor p, votesAgainst p, voters p))
     (dao_run (\<lambda>s. length s = 24) solana_address_format
        [CreateProposal ''507f1f77bcf86cd799439011'' 0 (Some ''Raise the staking APR'')
           (Some ''Raise the staking APR from 10 to 12 percent.'')
           (Some ''11111111111111111111111111111111''),
         Vote 86400000 (Some ''507f1f77bcf86cd799439011'') (Some ''for'')
           (Some ''11111111111111111111111111111111''),
         Vote 172800000 (Some ''507f1f77bcf86cd799439011'') (Some ''for'')
           (Some ''11111111111111111111111111111111''),
         Vote 259200000 (Some ''507f1f77bcf86cd799439011'') (Some ''against'')
           (Some ''So11111111111111111111111111111111111111112'')]
        Map.empty ''507f1f77bcf86cd799439011'')
     = Some (1, 1, [''11111111111111111111111111111111'',
                    ''So11111111111111111111111111111111111111112''])
   \<and> vote (\<lambda>s. length s = 24) solana_address_format 172800000
        (Some ''507f1f77bcf86cd799439011'') (Some ''for'') (Some ''11111111111111111111111111111111'')
        (Map.empty(''507f1f77bcf86cd799439011'' \<mapsto>
           \<lparr>title = ''Raise the staking APR'',
            description = ''Raise the staking APR from 10 to 12 percent.'',
            creatorWallet = ''11111111111111111111111111111111'',
            votesFor = 1, votesAgainst = 0, voters = [''11111111111111111111111111111111''],
            expiresAt = 604800000, status = active\<rparr>))
     = (Inl AlreadyVoted,
        Map.empty(''507f1f77bcf86cd799439011'' \<mapsto>
           \<lparr>title = ''Raise the staking APR'',
            description = ''Raise the staking APR from 10 to 12 percent.'',
            creatorWallet = ''11111111111111111111111111111111'',
            votesFor = 1, votesAgainst = 0, voters = [''11111111111111111111111111111111''],
            expiresAt = 604800000, status = active\<rparr>))"
  using votes_tally_with_voters [where V = "\<lambda>s. length s = 24" and P = solana_address_format
      and requests = "[]"
      and db = "Map.empty(''507f1f77bcf86cd799439011'' \<mapsto>
           \<lparr>title = ''Raise the staking APR'',
            description = ''Raise the staking APR from 10 to 12 percent.'',
            creatorWallet = ''11111111111111111111111111111111'',
            votesFor = 1, votesAgainst = 0, voters = [''11111111111111111111111111111111''],
            expiresAt = 604800000, status = active\<rparr>)",
      THEN conjunct2, THEN conjunct2, THEN conjunct1]
  by (simp add: dao_step_def vote_def create_proposal_def save_DaoProposal_def
      validate_DaoProposal_def solana_address_format_def base58_alphabet_def
      falsy_string_def Let_def)

text \<open>
  Claim C4 against the code. A well-formed vote on a proposal at or after \<open>expiresAt\<close> never
  changes the collection. On a proposal that is already \<open>completed\<close> it fails with
  \<open>VotingEnded\<close>. On an \<open>active\<close> one the handler sets \<open>status\<close> to \<open>completed\<close> and saves, the
  save runs the validator of \<open>expiresAt\<close> (the value must lie after \<open>now\<close>) and throws, and
  the answer is the status 500 of the \<^verbatim>\<open>catch\<close> block: the proposal stays \<open>active\<close>.
\<close>

theorem vote_after_expiry:
  assumes "pid \<noteq> []" and "V pid" and "vw \<noteq> []" and "P vw"
    and "vt = ''for'' \<or> vt = ''against''" and "db pid = Some proposal"
    and "expiresAt proposal \<le> now"
  shows "vote V P now (Some pid) (Some vt) (Some vw) db =
     (if status proposal = active then (Inl ServerError, db) else (Inl VotingEnded, db))"
  using assms
  by (simp add: vote_open_request [where proposal = proposal] save_DaoProposal_def
      validate_DaoProposal_def)

theorem vote_after_expiry_witness:
  "vote (\<lambda>s. length s = 24) solana_address_format 691200000
        (Some ''507f1f77bcf86cd799439011'') (Some ''against'')
        (Some ''So11111111111111111111111111111111111111112'')
        (Map.empty(''507f1f77bcf86cd799439011'' \<mapsto>
           \<lparr>title = ''Raise the staking APR'',
            description = ''Raise the staking APR from 10 to 12 percent.'',
            creatorWallet = ''11111111111111111111111111111111'',
            votesFor = 1, votesAgainst = 0, voters = [''11111111111111111111111111111111''],
            expiresAt = 604800000, status = active\<rparr>))
     = (Inl ServerError,
        Map.empty(''507f1f77bcf86cd799439011'' \<mapsto>
           \<lparr>title = ''Raise the staking APR'',
            description = ''Raise the staking APR from 10 to 12 percent.'',
            creatorWallet = ''11111111111111111111111111111111'',
            votesFor = 1, votesAgainst = 0, voters = [''11111111111111111111111111111111''],
            expiresAt = 604800000, status = active\<rparr>))
   \<and> http_status ServerError = 500"
  using vote_after_expiry [where V = "\<lambda>s. length s = 24" and P = solana_address_format
      and now = 691200000 and pid = "''507f1f77bcf86cd799439011''" and vt = "''against''"
      and vw = "''So11111111111111111111111111111111111111112''"
      and proposal = "\<lparr>title = ''Raise the staking APR'',
            description = ''Raise the staking APR from 10 to 12 percent.'',
            creatorWallet = ''11111111111111111111111111111111'',
            votesFor = 1, votesAgainst = 0, voters = [''11111111111111111111111111111111''],
            expiresAt = 604800000, status = active\<rparr>"
      and db = "Map.empty(''507f1f77bcf86cd799439011'' \<mapsto>
           \<lparr>title = ''Raise the staking APR'',
            description = ''Raise the staking APR from 10 to 12 percent.'',
            creatorWallet = ''11111111111111111111111111111111'',
            votesFor = 1, votesAgainst = 0, voters = [''11111111111111111111111111111111''],
            expiresAt = 604800000, status = active\<rparr>)"]
  by (simp add: solana_address_format_def base58_alphabet_def)

section \<open>The checks of the wallet address\<close>

text \<open>
  Claim C9, as stated, fails: the staking router only asks for a wallet address that is
  present. A stake for the string \<open>not a wallet\<close> creates a record.
\<close>

theorem stake_accepts_any_string_counterexample:
  "\<not> solana_address_format ''not a wallet''
   \<and> stake 0 (Some ''not a wallet'') (Some 5) Map.empty
     = (Inr \<lparr>stakedAmount = 5, rewards = 0, lastClaimed = 0, lastStakedOrUnstaked = 0\<rparr>,
        Map.empty(''not a wallet'' \<mapsto>
          \<lparr>stakedAmount = 5, rewards = 0, lastClaimed = 0, lastStakedOrUnstaked = 0\<rparr>))"
  by (simp add: stake_fresh solana_address_format_def)

lemma vote_rejects_refused_wallet:
  assumes "\<not> P vw"
  shows "\<exists>e. vote V P now pid vt (Some vw) db = (Inl e, db) \<and> http_status e = 400"
  using assms by (auto simp add: vote_def split: option.splits)

lemma create_proposal_rejects_refused_wallet:
  assumes "\<not> P c"
  shows "\<exists>e. create_proposal P newId now t d (Some c) db = (Inl e, db) \<and> http_status e = 400"
  using assms by (auto simp add: create_proposal_def split: option.splits)

text \<open>
  Claim C9, amended. A vote and a proposal creation whose wallet string the constructor
  \<^verbatim>\<open>PublicKey\<close> refuses fail with status 400 and leave the collection as it was. A stake, a
  claim and an unstake fail with status 400, and leave the collection as it was, when the
  wallet address is absent or empty; every string that is not empty and has no surrounding
  white space is taken as a wallet address, whatever its format: a stake creates its record,
  a claim and an unstake look its record up.
\<close>

theorem wallet_checks:
  "(\<not> P vw \<longrightarrow> (\<exists>e. vote V P now pid vt (Some vw) db = (Inl e, db) \<and> http_status e = 400))
   \<and> (\<not> P vw \<longrightarrow>
        (\<exists>e. create_proposal P newId now t d (Some vw) db = (Inl e, db) \<and> http_status e = 400))
   \<and> (falsy_string w \<longrightarrow>
        stake now w a sdb = (Inl StakeArgumentsInvalid, sdb)
        \<and> claim_rewards now w sdb = (Inl WalletAddressRequired, sdb)
        \<and> unstake now w sdb = (Inl WalletAddressRequired, sdb))
   \<and> (\<forall>s. s \<noteq> [] \<and> trim s = s \<and> 0 < amount \<and> sdb s = None \<longrightarrow>
        stake now (Some s) (Some amount) sdb =
          (Inr \<lparr>stakedAmount = amount, rewards = 0, lastClaimed = now, lastStakedOrUnstaked = now\<rparr>,
           sdb(s \<mapsto> \<lparr>stakedAmount = amount, rewards = 0, lastClaimed = now,
                      lastStakedOrUnstaked = now\<rparr>))
        \<and> claim_rewards now (Some s) sdb = (Inl StakingUserNotFound, sdb)
        \<and> unstake now (Some s) sdb = (Inl StakingUserNotFound, sdb))"
proof (intro conjI allI impI)
  assume "\<not> P vw"
  then show "\<exists>e. vote V P now pid vt (Some vw) db = (Inl e, db) \<and> http_status e = 400"
    by (rule vote_rejects_refused_wallet)
next
  assume "\<not> P vw"
  then show "\<exists>e. create_proposal P newId now t d (Some vw) db = (Inl e, db) \<and> http_status e = 400"
    by (rule create_proposal_rejects_refused_wallet)
next
  assume "falsy_string w"
  then show "stake now w a sdb = (Inl StakeArgumentsInvalid, sdb)"
    by (auto simp add: stake_def stake_find_def falsy_string_def split: option.splits)
next
  assume "falsy_string w"
  then show "claim_rewards now w sdb = (Inl WalletAddressRequired, sdb)"
    by (auto simp add: claim_rewards_def falsy_string_def split: option.splits)
next
  assume "falsy_string w"
  then show "unstake now w sdb = (Inl WalletAddressRequired, sdb)"
    by (auto simp add: unstake_def falsy_string_def split: option.splits)
next
  fix s assume "s \<noteq> [] \<and> trim s = s \<and> 0 < amount \<and> sdb s = None"
  then show "stake now (Some s) (Some amount) sdb =
          (Inr \<lparr>stakedAmount = amount, rewards = 0, lastClaimed = now, lastStakedOrUnstaked = now\<rparr>,
           sdb(s \<mapsto> \<lparr>stakedAmount = amount, rewards = 0, lastClaimed = now,
                      lastStakedOrUnstaked = now\<rparr>))"
    by (simp add: stake_fresh)
next
  fix s assume "s \<noteq> [] \<and> trim s = s \<and> 0 < amount \<and> sdb s = None"
  then show "claim_rewards now (Some s) sdb = (Inl StakingUserNotFound, sdb)"
    by (simp add: claim_rewards_def falsy_string_def)
next
  fix s assume "s \<noteq> [] \<and> trim s = s \<and> 0 < amount \<and> sdb s = None"
  then show "unstake now (Some s) sdb = (Inl StakingUserNotFound, sdb)"
    by (simp add: unstake_def falsy_string_def)
qed

theorem wallet_checks_witness:
  "vote (\<lambda>s. length s = 24) solana_address_format 0 (Some ''507f1f77bcf86cd799439011'')
      (Some ''for'') (Some ''not a wallet'') Map.empty = (Inl VoterWalletInvalid, Map.empty)
   \<and> create_proposal solana_address_format ''507f1f77bcf86cd799439011'' 0
      (Some ''Raise the staking APR'') (Some ''Raise the staking APR from 10 to 12 percent.'')
      (Some ''not a wallet'') Map.empty = (Inl CreatorWalletInvalid, Map.empty)
   \<and> stake 0 (Some '''') (Some 5) Map.empty = (Inl StakeArgumentsInvalid, Map.empty)
   \<and> claim_rewards 0 None Map.empty = (Inl WalletAddressRequired, Map.empty)
   \<and> unstake 0 (Some '''') Map.empty = (Inl WalletAddressRequired, Map.empty)
   \<and> stake 0 (Some ''not a wallet'') (Some 5) Map.empty
     = (Inr \<lparr>stakedAmount = 5, rewards = 0, lastClaimed = 0, lastStakedOrUnstaked = 0\<rparr>,
        Map.empty(''not a wallet'' \<mapsto>
          \<lparr>stakedAmount = 5, rewards = 0, lastClaimed = 0, lastStakedOrUnstaked = 0\<rparr>))"
  using wallet_checks [where P = solana_address_format and V = "\<lambda>s. length s = 24"
      and vw = "''not a wallet''" and now = 0 and pid = "Some ''507f1f77bcf86cd799439011''"
      and vt = "Some ''for''" and db = Map.empty and newId = "''507f1f77bcf86cd799439011''"
      and t = "Some ''Raise the staking APR''"
      and d = "Some ''Raise the staking APR from 10 to 12 percent.''"
      and w = "Some ''''" and a = "Some 5" and sdb = Map.empty and amount = 5]
    wallet_checks [where w = None and now = 0 and sdb = Map.empty]
  by (simp add: solana_address_format_def falsy_string_def vote_def create_proposal_def
      trim_def is_white_space_def)

end
